theory Spec2Isabelle
  imports
    Main
    "HOL-Library.Sublist"
    "HOL-Library.Log_Nat"
    "HOL-Library.Word"
    "HOL-Library.Char_ord"
    "HOL-Library.List_Lexorder"
begin

chapter \<open>tts-google: the backend of the text-to-speech tester\<close>

text \<open>
  A shallow embedding of the Express backend (\<^verbatim>\<open>server/index.js\<close>): the tier
  classification \<^verbatim>\<open>voiceTypeFromName\<close>, the price table and \<^verbatim>\<open>estimateCostUsd\<close>,
  the voice cache \<^verbatim>\<open>listVoicesCached\<close>, and the two handlers \<^verbatim>\<open>GET /api/voices\<close> and
  \<^verbatim>\<open>POST /api/synthesize\<close>.

  Conventions.
  \<^item> A JavaScript string is a \<^typ>\<open>string\<close>; one \<^typ>\<open>char\<close> stands for one UTF-16 code
    unit, so \<^const>\<open>length\<close> is \<^verbatim>\<open>.length\<close> (texts whose code units fit a \<^typ>\<open>char\<close>).
  \<^item> A finite JavaScript number is the rational value of its double. Comparisons are exact;
    \<^verbatim>\<open>/\<close> and \<^verbatim>\<open>*\<close> round to the nearest double, ties to even (\<open>fdiv\<close>, \<open>fmul\<close>).
    The result of arithmetic is a \<open>js_number\<close>: a finite double, or \<^verbatim>\<open>NaN\<close>.
  \<^item> The two remote operations of the Google client are inputs of the model: the
    environment says what each call answers, and every call made is recorded in a trace.
\<close>

section \<open>Numbers: IEEE 754 binary64 arithmetic on rationals\<close>

definition pow2 :: "int \<Rightarrow> rat" where
  "pow2 e = (if 0 \<le> e then 2 ^ nat e else 1 / 2 ^ nat (- e))"

text \<open>\<open>ilog2 x\<close> is the binary exponent of a positive rational: \<open>2 ^ ilog2 x \<le> x < 2 ^ (ilog2 x + 1)\<close>.\<close>

definition ilog2 :: "rat \<Rightarrow> int" where
  "ilog2 x = (let (p, q) = quotient_of x; e = bitlen p - bitlen q
              in if pow2 e \<le> x then e else e - 1)"

definition round_half_even :: "rat \<Rightarrow> int" where
  "round_half_even x =
     (let f = \<lfloor>x\<rfloor>; d = x - of_int f
      in if d < 1 / 2 then f
         else if 1 / 2 < d then f + 1
         else if even f then f else f + 1)"

text \<open>
  Rounding to 53 significant bits, nearest, ties to even. The values of this program stay
  in the normal range of a double (prices over a million times a string length), so
  overflow and subnormal numbers do not occur.
\<close>

definition fl :: "rat \<Rightarrow> rat" where
  "fl x =
     (if x = 0 then 0
      else let a = \<bar>x\<bar>; e = ilog2 a - 52
           in sgn x * of_int (round_half_even (a / pow2 e)) * pow2 e)"

definition fdiv :: "rat \<Rightarrow> rat \<Rightarrow> rat" where
  "fdiv x y = fl (x / y)"

definition fmul :: "rat \<Rightarrow> rat \<Rightarrow> rat" where
  "fmul x y = fl (x * y)"

datatype js_number = Finite rat | NaN

section \<open>Tier classification\<close>

text \<open>\<^verbatim>\<open>s.includes(p)\<close>: \<open>p\<close> occurs in \<open>s\<close> as a contiguous run.\<close>

fun str_includes :: "string \<Rightarrow> string \<Rightarrow> bool" where
  "str_includes [] p = (p = [])"
| "str_includes (c # cs) p = (prefix p (c # cs) \<or> str_includes cs p)"

definition voiceTypeFromName :: "string \<Rightarrow> string" where
  "voiceTypeFromName n =
     (if str_includes n ''-Studio-'' then ''STUDIO''
      else if str_includes n ''-Neural2-'' then ''NEURAL2''
      else if str_includes n ''-Wavenet-'' \<or> str_includes n ''-WaveNet-'' then ''WAVENET''
      else if str_includes n ''-Standard-'' then ''STANDARD''
      else if str_includes n ''Chirp3-HD'' \<or> str_includes n ''Chirp-HD'' \<or> str_includes n ''-Chirp-''
        then ''CHIRP_HD''
      else if str_includes n ''-Polyglot-'' then ''POLYGLOT''
      else ''OTHER'')"

text \<open>
  The classification as the specification words it: a table of patterns in the order
  Studio, Neural, Wavenet, Standard, Chirp, Polyglot; the tier of the first row with a
  pattern that occurs in the identifier, and OTHER when no row has one.
\<close>

definition tier_patterns :: "(string list \<times> string) list" where
  "tier_patterns =
     [([''-Studio-''], ''STUDIO''),
      ([''-Neural2-''], ''NEURAL2''),
      ([''-Wavenet-'', ''-WaveNet-''], ''WAVENET''),
      ([''-Standard-''], ''STANDARD''),
      ([''Chirp3-HD'', ''Chirp-HD'', ''-Chirp-''], ''CHIRP_HD''),
      ([''-Polyglot-''], ''POLYGLOT'')]"

definition row_matches :: "string \<Rightarrow> string list \<times> string \<Rightarrow> bool" where
  "row_matches n row = list_ex (str_includes n) (fst row)"

definition first_matching_tier :: "string \<Rightarrow> string" where
  "first_matching_tier n =
     (case find (row_matches n) tier_patterns of
        Some row \<Rightarrow> snd row
      | None \<Rightarrow> ''OTHER'')"

section \<open>Pricing\<close>

definition PRICE_PER_1M_USD :: "(string \<times> rat) list" where
  "PRICE_PER_1M_USD =
     [(''STANDARD'', 4),
      (''WAVENET'', 4),
      (''NEURAL2'', 16),
      (''STUDIO'', 160),
      (''CHIRP_HD'', 30),
      (''POLYGLOT'', 16),
      (''OTHER'', 16)]"

text \<open>
  \<^verbatim>\<open>PRICE_PER_1M_USD\<close> is an object literal, so a property read also finds what the
  object inherits from \<^verbatim>\<open>Object.prototype\<close>: these twelve names, each bound to a function
  or, for \<^verbatim>\<open>__proto__\<close>, to the prototype object.
\<close>

definition Object_prototype_names :: "string list" where
  "Object_prototype_names =
     [''constructor'', ''__defineGetter__'', ''__defineSetter__'', ''hasOwnProperty'',
      ''__lookupGetter__'', ''__lookupSetter__'', ''isPrototypeOf'', ''propertyIsEnumerable'',
      ''toString'', ''valueOf'', ''__proto__'', ''toLocaleString'']"

text \<open>What a read of the table yields: a rate, or an inherited value that is no number.\<close>

datatype table_entry = Rate rat | Inherited

text \<open>
  \<^verbatim>\<open>PRICE_PER_1M_USD[voiceType] ?? PRICE_PER_1M_USD.OTHER\<close>: the own property when the
  table has the key, the inherited value when the name is inherited (it is neither
  \<^verbatim>\<open>null\<close> nor \<^verbatim>\<open>undefined\<close>, so \<^verbatim>\<open>??\<close> keeps it), and the rate of OTHER otherwise.
\<close>

definition per1m_of :: "string \<Rightarrow> table_entry" where
  "per1m_of voiceType =
     (case map_of PRICE_PER_1M_USD voiceType of
        Some r \<Rightarrow> Rate r
      | None \<Rightarrow>
          if voiceType \<in> set Object_prototype_names then Inherited
          else Rate (the (map_of PRICE_PER_1M_USD ''OTHER'')))"

text \<open>
  \<^verbatim>\<open>(per1m / 1_000_000) * charCount\<close>. An inherited function or object converts to
  \<^verbatim>\<open>NaN\<close>, and so does every product with it.
\<close>

definition estimateCostUsd :: "string \<Rightarrow> nat \<Rightarrow> js_number" where
  "estimateCostUsd voiceType charCount =
     (case per1m_of voiceType of
        Rate per1m \<Rightarrow> Finite (fmul (fdiv per1m 1000000) (of_nat charCount))
      | Inherited \<Rightarrow> NaN)"

section \<open>The voice directory and its cache\<close>

text \<open>
  A voice as \<^verbatim>\<open>ttsClient.listVoices\<close> answers it: the name is a string, the other
  fields may be absent.
\<close>

record raw_voice =
  raw_name :: string
  raw_languageCodes :: "string list option"
  raw_ssmlGender :: "string option"
  raw_naturalSampleRateHertz :: "int option"

record voice =
  name :: string
  languageCodes :: "string list"
  ssmlGender :: string
  naturalSampleRateHertz :: "int option"
  voiceType :: string

text \<open>The arrow function mapped over \<^verbatim>\<open>resp.voices\<close>; \<^verbatim>\<open>||\<close> replaces a falsy field.\<close>

definition to_voice :: "raw_voice \<Rightarrow> voice" where
  "to_voice v =
     \<lparr>name = raw_name v,
      languageCodes = (case raw_languageCodes v of None \<Rightarrow> [] | Some l \<Rightarrow> l),
      ssmlGender =
        (case raw_ssmlGender v of
           None \<Rightarrow> ''SSML_VOICE_GENDER_UNSPECIFIED''
         | Some g \<Rightarrow> if g = [] then ''SSML_VOICE_GENDER_UNSPECIFIED'' else g),
      naturalSampleRateHertz =
        (case raw_naturalSampleRateHertz v of
           None \<Rightarrow> None
         | Some r \<Rightarrow> if r = 0 then None else Some r),
      voiceType = voiceTypeFromName (raw_name v)\<rparr>"

record voices_cache =
  atMs :: int
  voices :: "voice list"

definition initial_cache :: voices_cache where
  "initial_cache = \<lparr>atMs = 0, voices = []\<rparr>"

section \<open>The synthesis request\<close>

datatype json =
  JNull | JBool bool | JNum rat | JStr string | JArr "json list" | JObj "(string \<times> json) list"

datatype input_type = Text | Ssml

datatype audio_encoding = MP3 | OGG_OPUS | LINEAR16 | MULAW

record parsed =
  inputType :: input_type
  text_str :: string
  voiceName :: string
  languageCode :: "string option"
  audioEncoding :: audio_encoding
  speakingRate :: "rat option"
  pitch :: "rat option"
  volumeGainDb :: "rat option"

text \<open>
  What zod reports: the path of the offending field and the kind of issue. A schema
  collects the issues of all its fields before it throws.
\<close>

datatype issue_code = invalid_type | invalid_enum_value | too_small | too_big

type_synonym zod_issue = "string list \<times> issue_code"

datatype exn = ZodError "zod_issue list" | RemoteRejection string

text \<open>\<^verbatim>\<open>z.enum(["text", "ssml"]).default("text")\<close>\<close>

definition z_inputType :: "json option \<Rightarrow> zod_issue list + input_type" where
  "z_inputType v =
     (case v of
        None \<Rightarrow> Inr Text
      | Some (JStr s) \<Rightarrow>
          if s = ''text'' then Inr Text
          else if s = ''ssml'' then Inr Ssml
          else Inl [([''inputType''], invalid_enum_value)]
      | Some _ \<Rightarrow> Inl [([''inputType''], invalid_type)])"

text \<open>\<^verbatim>\<open>z.enum(["MP3", "OGG_OPUS", "LINEAR16", "MULAW"]).default("MP3")\<close>\<close>

definition z_audioEncoding :: "json option \<Rightarrow> zod_issue list + audio_encoding" where
  "z_audioEncoding v =
     (case v of
        None \<Rightarrow> Inr MP3
      | Some (JStr s) \<Rightarrow>
          if s = ''MP3'' then Inr MP3
          else if s = ''OGG_OPUS'' then Inr OGG_OPUS
          else if s = ''LINEAR16'' then Inr LINEAR16
          else if s = ''MULAW'' then Inr MULAW
          else Inl [([''audioEncoding''], invalid_enum_value)]
      | Some _ \<Rightarrow> Inl [([''audioEncoding''], invalid_type)])"

text \<open>\<^verbatim>\<open>z.string().min(lo)\<close>, with \<^verbatim>\<open>.max(hi)\<close> when a bound is given.\<close>

definition z_string :: "string \<Rightarrow> nat \<Rightarrow> nat option \<Rightarrow> json option \<Rightarrow> zod_issue list + string" where
  "z_string key lo hi v =
     (case v of
        Some (JStr s) \<Rightarrow>
          if length s < lo then Inl [([key], too_small)]
          else (case hi of
                  Some h \<Rightarrow> if h < length s then Inl [([key], too_big)] else Inr s
                | None \<Rightarrow> Inr s)
      | _ \<Rightarrow> Inl [([key], invalid_type)])"

text \<open>\<^verbatim>\<open>z.string().optional()\<close>\<close>

definition z_string_optional :: "string \<Rightarrow> json option \<Rightarrow> zod_issue list + string option" where
  "z_string_optional key v =
     (case v of
        None \<Rightarrow> Inr None
      | Some (JStr s) \<Rightarrow> Inr (Some s)
      | Some _ \<Rightarrow> Inl [([key], invalid_type)])"

text \<open>\<^verbatim>\<open>z.number().min(lo).max(hi).optional()\<close>\<close>

definition z_number_optional :: "string \<Rightarrow> rat \<Rightarrow> rat \<Rightarrow> json option \<Rightarrow> zod_issue list + rat option" where
  "z_number_optional key lo hi v =
     (case v of
        None \<Rightarrow> Inr None
      | Some (JNum x) \<Rightarrow>
          if x < lo then Inl [([key], too_small)]
          else if hi < x then Inl [([key], too_big)]
          else Inr (Some x)
      | Some _ \<Rightarrow> Inl [([key], invalid_type)])"

fun issues_of :: "zod_issue list + 'a \<Rightarrow> zod_issue list" where
  "issues_of (Inl is) = is"
| "issues_of (Inr _) = []"

text \<open>
  \<^verbatim>\<open>SynthesizeSchema.parse(req.body)\<close>. The list of a \<open>JObj\<close> holds the properties of
  the parsed body, one entry for each key; a missing key reads as \<^verbatim>\<open>undefined\<close>.
\<close>

definition SynthesizeSchema_parse :: "json \<Rightarrow> exn + parsed" where
  "SynthesizeSchema_parse body =
     (case body of
        JObj kvs \<Rightarrow>
          (let r1 = z_inputType (map_of kvs ''inputType'');
               r2 = z_string ''text'' 1 (Some 4000) (map_of kvs ''text'');
               r3 = z_string ''voiceName'' 1 None (map_of kvs ''voiceName'');
               r4 = z_string_optional ''languageCode'' (map_of kvs ''languageCode'');
               r5 = z_audioEncoding (map_of kvs ''audioEncoding'');
               r6 = z_number_optional ''speakingRate'' (1 / 4) 4 (map_of kvs ''speakingRate'');
               r7 = z_number_optional ''pitch'' (- 20) 20 (map_of kvs ''pitch'');
               r8 = z_number_optional ''volumeGainDb'' (- 96) 16 (map_of kvs ''volumeGainDb'')
           in case (r1, r2, r3, r4, r5, r6, r7, r8) of
                (Inr a, Inr b, Inr c, Inr d, Inr e, Inr f, Inr g, Inr h) \<Rightarrow>
                  Inr \<lparr>inputType = a, text_str = b, voiceName = c, languageCode = d,
                       audioEncoding = e, speakingRate = f, pitch = g, volumeGainDb = h\<rparr>
              | _ \<Rightarrow>
                  Inl (ZodError (issues_of r1 @ issues_of r2 @ issues_of r3 @ issues_of r4
                    @ issues_of r5 @ issues_of r6 @ issues_of r7 @ issues_of r8)))
      | _ \<Rightarrow> Inl (ZodError [([], invalid_type)]))"

section \<open>The remote service\<close>

datatype synthesis_input = InputText string | InputSsml string

record tts_request =
  req_input :: synthesis_input
  req_voice_name :: string
  req_voice_languageCode :: "string option"
  cfg_audioEncoding :: audio_encoding
  cfg_speakingRate :: "rat option"
  cfg_pitch :: "rat option"
  cfg_volumeGainDb :: "rat option"

datatype remote_call = ListVoices | SynthesizeSpeech tts_request

text \<open>
  The surroundings of one request: the configured lifetime of the cache, the reading of
  \<^verbatim>\<open>Date.now()\<close>, and the answers of the two remote operations. A rejected call is
  \<open>Inl\<close> with the text \<^verbatim>\<open>String(e?.message || e)\<close> of what it threw. \<open>listVoices\<close> answers
  \<^verbatim>\<open>resp.voices\<close> (possibly absent), \<open>synthesizeSpeech\<close> answers
  \<^verbatim>\<open>response.audioContent\<close> (possibly absent) for the request it is sent.
\<close>

record env =
  VOICES_CACHE_TTL_SEC :: int
  now :: int
  listVoices :: "string + raw_voice list option"
  synthesizeSpeech :: "tts_request \<Rightarrow> string + 8 word list option"

definition listVoicesCached ::
  "env \<Rightarrow> voices_cache \<Rightarrow> (string + voice list) \<times> voices_cache \<times> remote_call list" where
  "listVoicesCached e voicesCache =
     (if voices voicesCache \<noteq> [] \<and> now e - atMs voicesCache < VOICES_CACHE_TTL_SEC e * 1000
      then (Inr (voices voicesCache), voicesCache, [])
      else case listVoices e of
             Inl m \<Rightarrow> (Inl m, voicesCache, [ListVoices])
           | Inr resp \<Rightarrow>
               let vs = map to_voice (case resp of None \<Rightarrow> [] | Some l \<Rightarrow> l)
               in (Inr vs, \<lparr>atMs = now e, voices = vs\<rparr>, [ListVoices]))"

section \<open>Responses\<close>

record audio_out =
  base64 :: string
  mimeType :: string
  encoding :: audio_encoding

record billing =
  currency :: string
  estimatedCostUsd :: js_number
  per1MCharactersUsd :: table_entry

text \<open>
  The success body of \<^verbatim>\<open>POST /api/synthesize\<close>. The two durations of
  \<^verbatim>\<open>metrics.server\<close> are readings of the process clock and are left out.
\<close>

record synthesis_result =
  audio :: audio_out
  res_voice :: voice
  charCount :: nat
  res_inputType :: input_type
  billingEstimate :: billing
  warnings :: "string list"

record voices_listing =
  res_voices :: "voice list"
  languages :: "string list"
  voiceTypes :: "string list"
  ttlSec :: int
  cachedAt :: "int option"
  count :: nat

datatype details = Issues "zod_issue list" | Message string

datatype body = Error string "details option" | Synthesis synthesis_result | Voices voices_listing

record response =
  status :: nat
  body :: body

section \<open>\<^verbatim>\<open>GET /api/voices\<close>\<close>

definition get_api_voices ::
  "env \<Rightarrow> voices_cache \<Rightarrow> response \<times> voices_cache \<times> remote_call list" where
  "get_api_voices e voicesCache =
     (case listVoicesCached e voicesCache of
        (Inr vs, cache', calls) \<Rightarrow>
          (\<lparr>status = 200,
            body = Voices
              \<lparr>res_voices = vs,
               languages = sort (remdups (concat (map languageCodes vs))),
               voiceTypes = sort (remdups (map voiceType vs)),
               ttlSec = VOICES_CACHE_TTL_SEC e,
               cachedAt = (if atMs cache' \<noteq> 0 then Some (atMs cache') else None),
               count = length vs\<rparr>\<rparr>,
           cache', calls)
      | (Inl m, cache', calls) \<Rightarrow>
          (\<lparr>status = 500, body = Error ''Failed to list voices'' (Some (Message m))\<rparr>,
           cache', calls))"

section \<open>\<^verbatim>\<open>POST /api/synthesize\<close>\<close>

text \<open>\<^verbatim>\<open>buffer.toString("base64")\<close>: three bytes become four digits, the tail is padded.\<close>

definition b64_digit :: "nat \<Rightarrow> char" where
  "b64_digit i =
     ''ABCDEFGHIJKLMNOPQRSTUVWXYZabcdefghijklmnopqrstuvwxyz0123456789+/'' ! i"

fun toString_base64 :: "8 word list \<Rightarrow> string" where
  "toString_base64 [] = []"
| "toString_base64 [a] =
     (let x = unat a
      in [b64_digit (x div 4), b64_digit (x mod 4 * 16), CHR ''='', CHR ''=''])"
| "toString_base64 [a, b] =
     (let x = unat a; y = unat b
      in [b64_digit (x div 4), b64_digit (x mod 4 * 16 + y div 16),
          b64_digit (y mod 16 * 4), CHR ''=''])"
| "toString_base64 (a # b # c # rest) =
     (let x = unat a; y = unat b; z = unat c
      in [b64_digit (x div 4), b64_digit (x mod 4 * 16 + y div 16),
          b64_digit (y mod 16 * 4 + z div 64), b64_digit (z mod 64)]
         @ toString_base64 rest)"

text \<open>
  The block for Chirp 3: HD voices: the input type, the speaking rate and the pitch
  that go on, and the warnings pushed.
\<close>

definition chirp_hd_limits ::
  "string \<Rightarrow> parsed \<Rightarrow> input_type \<times> rat option \<times> rat option \<times> string list" where
  "chirp_hd_limits tier p =
     (if tier = ''CHIRP_HD'' then
        (let (inputType', w1) =
               (if inputType p = Ssml
                then (Text, [''Chirp 3: HD voices do not support SSML. Falling back to plain text.''])
                else (inputType p, []));
             (speakingRate', w2) =
               (if speakingRate p \<noteq> None
                then (None, w1 @ [''Chirp 3: HD voices do not support speakingRate. Ignoring.''])
                else (speakingRate p, w1));
             (pitch', w3) =
               (if pitch p \<noteq> None
                then (None, w2 @ [''Chirp 3: HD voices do not support pitch. Ignoring.''])
                else (pitch p, w2))
         in (inputType', speakingRate', pitch', w3))
      else (inputType p, speakingRate p, pitch p, []))"

text \<open>
  The request sent to \<^verbatim>\<open>synthesizeSpeech\<close>. A field of \<open>audioConfig\<close> that is \<open>None\<close>
  is not a key of the object.
\<close>

definition build_request ::
  "parsed \<Rightarrow> voice \<Rightarrow> input_type \<Rightarrow> rat option \<Rightarrow> rat option \<Rightarrow> tts_request" where
  "build_request p v inputType' speakingRate' pitch' =
     \<lparr>req_input = (if inputType' = Ssml then InputSsml (text_str p) else InputText (text_str p)),
      req_voice_name = voiceName p,
      req_voice_languageCode =
        (case languageCode p of
           Some l \<Rightarrow> if l \<noteq> [] then Some l else (case languageCodes v of [] \<Rightarrow> None | x # _ \<Rightarrow> Some x)
         | None \<Rightarrow> (case languageCodes v of [] \<Rightarrow> None | x # _ \<Rightarrow> Some x)),
      cfg_audioEncoding = audioEncoding p,
      cfg_speakingRate = speakingRate',
      cfg_pitch = pitch',
      cfg_volumeGainDb = volumeGainDb p\<rparr>"

definition mimeType_of :: "audio_encoding \<Rightarrow> string" where
  "mimeType_of enc =
     (if enc = MP3 then ''audio/mpeg''
      else if enc = OGG_OPUS then ''audio/ogg''
      else if enc = LINEAR16 then ''audio/wav''
      else ''audio/basic'')"

text \<open>
  The body of the \<^verbatim>\<open>try\<close> block: \<open>Inl\<close> is what it throws, \<open>Inr\<close> the response it sends.
  The cache and the calls made so far are kept on every path.
\<close>

definition synthesize_try ::
  "env \<Rightarrow> voices_cache \<Rightarrow> json \<Rightarrow> (exn + response) \<times> voices_cache \<times> remote_call list" where
  "synthesize_try e voicesCache reqBody =
     (case SynthesizeSchema_parse reqBody of
        Inl err \<Rightarrow> (Inl err, voicesCache, [])
      | Inr p \<Rightarrow>
          (case listVoicesCached e voicesCache of
             (Inl m, cache', calls) \<Rightarrow> (Inl (RemoteRejection m), cache', calls)
           | (Inr vs, cache', calls) \<Rightarrow>
               (case find (\<lambda>v. name v = voiceName p) vs of
                  None \<Rightarrow>
                    (Inr \<lparr>status = 400,
                          body = Error ''Unknown voiceName. Fetch /api/voices and pick one from the list.'' None\<rparr>,
                     cache', calls)
                | Some v \<Rightarrow>
                    (let tier = voiceType v;
                         (inputType', speakingRate', pitch', ws) = chirp_hd_limits tier p;
                         n = length (text_str p);
                         request = build_request p v inputType' speakingRate' pitch';
                         calls' = calls @ [SynthesizeSpeech request]
                     in case synthesizeSpeech e request of
                          Inl m \<Rightarrow> (Inl (RemoteRejection m), cache', calls')
                        | Inr content \<Rightarrow>
                            (let audioContent =
                                   (case content of None \<Rightarrow> [] | Some bytes \<Rightarrow> toString_base64 bytes)
                             in if audioContent = []
                                then (Inr \<lparr>status = 500,
                                           body = Error ''No audioContent returned by Google TTS.'' None\<rparr>,
                                      cache', calls')
                                else (Inr \<lparr>status = 200,
                                           body = Synthesis
                                             \<lparr>audio = \<lparr>base64 = audioContent,
                                                       mimeType = mimeType_of (audioEncoding p),
                                                       encoding = audioEncoding p\<rparr>,
                                              res_voice = v,
                                              charCount = n,
                                              res_inputType = inputType',
                                              billingEstimate =
                                                \<lparr>currency = ''USD'',
                                                 estimatedCostUsd = estimateCostUsd tier n,
                                                 per1MCharactersUsd = per1m_of tier\<rparr>,
                                              warnings = ws\<rparr>\<rparr>,
                                      cache', calls'))))))"

text \<open>The handler: the \<^verbatim>\<open>catch\<close> clause answers whatever the block threw.\<close>

definition post_api_synthesize ::
  "env \<Rightarrow> voices_cache \<Rightarrow> json \<Rightarrow> response \<times> voices_cache \<times> remote_call list" where
  "post_api_synthesize e voicesCache reqBody =
     (case synthesize_try e voicesCache reqBody of
        (Inr res, cache', calls) \<Rightarrow> (res, cache', calls)
      | (Inl err, cache', calls) \<Rightarrow>
          (\<lparr>status = 400,
            body = Error ''Bad request''
              (Some (case err of ZodError is \<Rightarrow> Issues is | RemoteRejection m \<Rightarrow> Message m))\<rparr>,
           cache', calls))"

text \<open>The request that the handler sends for a parsed body and the voice it found.\<close>

definition forwarded :: "parsed \<Rightarrow> voice \<Rightarrow> tts_request" where
  "forwarded p v =
     (case chirp_hd_limits (voiceType v) p of
        (inputType', speakingRate', pitch', ws) \<Rightarrow> build_request p v inputType' speakingRate' pitch')"

section \<open>Sample voices, requests and surroundings\<close>

definition standard_a :: voice where
  "standard_a =
     \<lparr>name = ''en-US-Standard-A'', languageCodes = [''en-US''], ssmlGender = ''MALE'',
      naturalSampleRateHertz = Some 24000, voiceType = ''STANDARD''\<rparr>"

definition chirp_achernar :: voice where
  "chirp_achernar =
     \<lparr>name = ''en-US-Chirp3-HD-Achernar'', languageCodes = [''en-US''], ssmlGender = ''FEMALE'',
      naturalSampleRateHertz = Some 24000, voiceType = ''CHIRP_HD''\<rparr>"

definition fresh_cache :: voices_cache where
  "fresh_cache = \<lparr>atMs = 1000, voices = [standard_a, chirp_achernar]\<rparr>"

text \<open>A service whose directory is empty, read at time \<open>t\<close>.\<close>

definition empty_directory_env :: "int \<Rightarrow> env" where
  "empty_directory_env t =
     \<lparr>VOICES_CACHE_TTL_SEC = 3600, now = t, listVoices = Inr (Some []),
      synthesizeSpeech = (\<lambda>_. Inr None)\<rparr>"

text \<open>A service that rejects both operations, read at time \<open>t\<close>.\<close>

definition unreachable_env :: "int \<Rightarrow> env" where
  "unreachable_env t =
     \<lparr>VOICES_CACHE_TTL_SEC = 3600, now = t, listVoices = Inl ''14 UNAVAILABLE'',
      synthesizeSpeech = (\<lambda>_. Inl ''14 UNAVAILABLE'')\<rparr>"

text \<open>A service that answers every synthesis request with the same audio content.\<close>

definition answering_env :: "8 word list option \<Rightarrow> env" where
  "answering_env content =
     \<lparr>VOICES_CACHE_TTL_SEC = 3600, now = 2000, listVoices = Inl ''14 UNAVAILABLE'',
      synthesizeSpeech = (\<lambda>_. Inr content)\<rparr>"

definition hello_body :: json where
  "hello_body =
     JObj [(''inputType'', JStr ''text''), (''text'', JStr ''Hello''),
           (''voiceName'', JStr ''en-US-Standard-A''), (''audioEncoding'', JStr ''MP3'')]"

definition hello_parsed :: parsed where
  "hello_parsed =
     \<lparr>inputType = Text, text_str = ''Hello'', voiceName = ''en-US-Standard-A'',
      languageCode = None, audioEncoding = MP3, speakingRate = None, pitch = None,
      volumeGainDb = None\<rparr>"

definition ssml_body :: json where
  "ssml_body =
     JObj [(''inputType'', JStr ''ssml''), (''text'', JStr ''<speak>Hi</speak>''),
           (''voiceName'', JStr ''en-US-Chirp3-HD-Achernar''),
           (''speakingRate'', JNum (5 / 4)), (''pitch'', JNum 2)]"

definition ssml_parsed :: parsed where
  "ssml_parsed =
     \<lparr>inputType = Ssml, text_str = ''<speak>Hi</speak>'', voiceName = ''en-US-Chirp3-HD-Achernar'',
      languageCode = None, audioEncoding = MP3, speakingRate = Some (5 / 4), pitch = Some 2,
      volumeGainDb = None\<rparr>"

definition stranger_body :: json where
  "stranger_body =
     JObj [(''text'', JStr ''Hello''), (''voiceName'', JStr ''xx-XX-Standard-Z'')]"

section \<open>The arithmetic and the substring test behave as intended\<close>

lemma str_includes_iff: "str_includes s p \<longleftrightarrow> (\<exists>a b. s = a @ p @ b)"
proof (induction s)
  case Nil
  then show ?case by auto
next
  case (Cons c cs)
  show ?case
  proof
    assume "str_includes (c # cs) p"
    then consider "prefix p (c # cs)" | "str_includes cs p" by auto
    then show "\<exists>a b. c # cs = a @ p @ b"
    proof cases
      case 1
      then obtain b where "c # cs = p @ b" by (auto simp: prefix_def)
      then have "c # cs = [] @ p @ b" by simp
      then show ?thesis by blast
    next
      case 2
      with Cons.IH obtain a b where "cs = a @ p @ b" by blast
      then have "c # cs = (c # a) @ p @ b" by simp
      then show ?thesis by blast
    qed
  next
    assume "\<exists>a b. c # cs = a @ p @ b"
    then obtain a b where ab: "c # cs = a @ p @ b" by blast
    show "str_includes (c # cs) p"
    proof (cases a)
      case Nil
      with ab have "prefix p (c # cs)" by (simp add: prefix_def)
      then show ?thesis by simp
    next
      case (Cons x a')
      with ab have "cs = a' @ p @ b" by simp
      with Cons.IH have "str_includes cs p" by blast
      then show ?thesis by simp
    qed
  qed
qed

lemma fl_rounds_inexact_products: "fmul (fdiv 1 49) 49 = 9007199254740991 / 9007199254740992"
  by code_simp


lemma per1m_of_known:
  "per1m_of ''STANDARD'' = Rate 4" "per1m_of ''WAVENET'' = Rate 4"
  "per1m_of ''NEURAL2'' = Rate 16" "per1m_of ''STUDIO'' = Rate 160"
  "per1m_of ''CHIRP_HD'' = Rate 30" "per1m_of ''POLYGLOT'' = Rate 16"
  "per1m_of ''OTHER'' = Rate 16"
  by (simp_all add: per1m_of_def PRICE_PER_1M_USD_def)




section \<open>The cache and the handler, path by path\<close>

lemma toString_base64_empty_iff: "toString_base64 bs = [] \<longleftrightarrow> bs = []"
  by (cases bs rule: toString_base64.cases) (simp_all add: Let_def)

lemma listVoicesCached_calls:
  "snd (snd (listVoicesCached e c)) = [] \<or> snd (snd (listVoicesCached e c)) = [ListVoices]"
  by (simp add: listVoicesCached_def Let_def split: sum.splits)

lemma listVoicesCached_no_synthesis:
  "SynthesizeSpeech rq \<notin> set (snd (snd (listVoicesCached e c)))"
  using listVoicesCached_calls [of e c] by auto

lemma chirp_hd_limits_ssml:
  "inputType p = Ssml \<Longrightarrow>
   chirp_hd_limits ''CHIRP_HD'' p =
     (Text, None, None,
      [''Chirp 3: HD voices do not support SSML. Falling back to plain text.'']
      @ (if speakingRate p \<noteq> None
         then [''Chirp 3: HD voices do not support speakingRate. Ignoring.''] else [])
      @ (if pitch p \<noteq> None
         then [''Chirp 3: HD voices do not support pitch. Ignoring.''] else []))"
  by (simp add: chirp_hd_limits_def)

lemma chirp_hd_limits_other:
  "tier \<noteq> ''CHIRP_HD'' \<Longrightarrow> chirp_hd_limits tier p = (inputType p, speakingRate p, pitch p, [])"
  by (simp add: chirp_hd_limits_def)

lemma synthesize_try_found:
  assumes "SynthesizeSchema_parse b = Inr p"
    and "listVoicesCached e c = (Inr vs, c', calls)"
    and "find (\<lambda>v. name v = voiceName p) vs = Some v"
  shows "synthesize_try e c b =
     (case synthesizeSpeech e (forwarded p v) of
        Inl m \<Rightarrow> (Inl (RemoteRejection m), c', calls @ [SynthesizeSpeech (forwarded p v)])
      | Inr content \<Rightarrow>
          if content = None \<or> content = Some []
          then (Inr \<lparr>status = 500, body = Error ''No audioContent returned by Google TTS.'' None\<rparr>,
                c', calls @ [SynthesizeSpeech (forwarded p v)])
          else (Inr \<lparr>status = 200,
                     body = Synthesis
                       \<lparr>audio = \<lparr>base64 = toString_base64 (the content),
                                 mimeType = mimeType_of (audioEncoding p),
                                 encoding = audioEncoding p\<rparr>,
                        res_voice = v,
                        charCount = length (text_str p),
                        res_inputType = fst (chirp_hd_limits (voiceType v) p),
                        billingEstimate =
                          \<lparr>currency = ''USD'',
                           estimatedCostUsd = estimateCostUsd (voiceType v) (length (text_str p)),
                           per1MCharactersUsd = per1m_of (voiceType v)\<rparr>,
                        warnings = snd (snd (snd (chirp_hd_limits (voiceType v) p)))\<rparr>\<rparr>,
                c', calls @ [SynthesizeSpeech (forwarded p v)]))"
  using assms
  by (simp add: synthesize_try_def forwarded_def Let_def toString_base64_empty_iff
      split: prod.splits sum.splits option.splits)

lemma synthesize_try_not_found:
  assumes "SynthesizeSchema_parse b = Inr p"
    and "listVoicesCached e c = (Inr vs, c', calls)"
    and "find (\<lambda>v. name v = voiceName p) vs = None"
  shows "synthesize_try e c b =
     (Inr \<lparr>status = 400,
           body = Error ''Unknown voiceName. Fetch /api/voices and pick one from the list.'' None\<rparr>,
      c', calls)"
  using assms by (simp add: synthesize_try_def)

lemma synthesize_try_invalid:
  "SynthesizeSchema_parse b = Inl err \<Longrightarrow> synthesize_try e c b = (Inl err, c, [])"
  by (simp add: synthesize_try_def)

lemma synthesize_try_listing_failed:
  assumes "SynthesizeSchema_parse b = Inr p"
    and "listVoicesCached e c = (Inl m, c', calls)"
  shows "synthesize_try e c b = (Inl (RemoteRejection m), c', calls)"
  using assms by (simp add: synthesize_try_def)

lemma synthesize_try_calls:
  assumes "SynthesizeSchema_parse b = Inr p"
    and "listVoicesCached e c = (Inr vs, c', calls)"
    and "find (\<lambda>v. name v = voiceName p) vs = Some v"
  shows "snd (snd (synthesize_try e c b)) = calls @ [SynthesizeSpeech (forwarded p v)]"
  by (simp add: synthesize_try_found [OF assms] split: sum.splits)

lemma synthesize_try_rejected:
  assumes "SynthesizeSchema_parse b = Inr p"
    and "listVoicesCached e c = (Inr vs, c', calls)"
    and "find (\<lambda>v. name v = voiceName p) vs = Some v"
    and "synthesizeSpeech e (forwarded p v) = Inl m"
  shows "synthesize_try e c b =
     (Inl (RemoteRejection m), c', calls @ [SynthesizeSpeech (forwarded p v)])"
  by (simp add: synthesize_try_found [OF assms(1-3)] assms(4))

lemma synthesize_try_no_audio:
  assumes "SynthesizeSchema_parse b = Inr p"
    and "listVoicesCached e c = (Inr vs, c', calls)"
    and "find (\<lambda>v. name v = voiceName p) vs = Some v"
    and "synthesizeSpeech e (forwarded p v) = Inr content"
    and "content = None \<or> content = Some []"
  shows "synthesize_try e c b =
     (Inr \<lparr>status = 500, body = Error ''No audioContent returned by Google TTS.'' None\<rparr>,
      c', calls @ [SynthesizeSpeech (forwarded p v)])"
  using assms(5) by (simp add: synthesize_try_found [OF assms(1-3)] assms(4))

lemma synthesize_try_audio:
  assumes "SynthesizeSchema_parse b = Inr p"
    and "listVoicesCached e c = (Inr vs, c', calls)"
    and "find (\<lambda>v. name v = voiceName p) vs = Some v"
    and "synthesizeSpeech e (forwarded p v) = Inr (Some bytes)"
    and "bytes \<noteq> []"
  shows "synthesize_try e c b =
     (Inr \<lparr>status = 200,
           body = Synthesis
             \<lparr>audio = \<lparr>base64 = toString_base64 bytes,
                       mimeType = mimeType_of (audioEncoding p),
                       encoding = audioEncoding p\<rparr>,
              res_voice = v,
              charCount = length (text_str p),
              res_inputType = fst (chirp_hd_limits (voiceType v) p),
              billingEstimate =
                \<lparr>currency = ''USD'',
                 estimatedCostUsd = estimateCostUsd (voiceType v) (length (text_str p)),
                 per1MCharactersUsd = per1m_of (voiceType v)\<rparr>,
              warnings = snd (snd (snd (chirp_hd_limits (voiceType v) p)))\<rparr>\<rparr>,
      c', calls @ [SynthesizeSpeech (forwarded p v)])"
  using assms(5) by (simp add: synthesize_try_found [OF assms(1-3)] assms(4))

lemma post_api_synthesize_calls:
  "snd (snd (post_api_synthesize e c b)) = snd (snd (synthesize_try e c b))"
  by (simp add: post_api_synthesize_def split: prod.splits sum.splits)

lemma post_api_synthesize_sent:
  "synthesize_try e c b = (Inr res, c', calls) \<Longrightarrow> post_api_synthesize e c b = (res, c', calls)"
  by (simp add: post_api_synthesize_def)

lemma post_api_synthesize_caught:
  "synthesize_try e c b = (Inl err, c', calls) \<Longrightarrow>
   post_api_synthesize e c b =
     (\<lparr>status = 400,
       body = Error ''Bad request''
         (Some (case err of ZodError is \<Rightarrow> Issues is | RemoteRejection m \<Rightarrow> Message m))\<rparr>,
      c', calls)"
  by (simp add: post_api_synthesize_def)

lemma synthesize_try_cases:
  obtains (invalid) err where "SynthesizeSchema_parse b = Inl err"
      "synthesize_try e c b = (Inl err, c, [])"
  | (listing_failed) p m c' calls where "SynthesizeSchema_parse b = Inr p"
      "listVoicesCached e c = (Inl m, c', calls)"
      "synthesize_try e c b = (Inl (RemoteRejection m), c', calls)"
  | (not_found) p vs c' calls where "SynthesizeSchema_parse b = Inr p"
      "listVoicesCached e c = (Inr vs, c', calls)"
      "find (\<lambda>v. name v = voiceName p) vs = None"
      "synthesize_try e c b =
         (Inr \<lparr>status = 400,
               body = Error ''Unknown voiceName. Fetch /api/voices and pick one from the list.'' None\<rparr>,
          c', calls)"
  | (found) p vs c' calls v where "SynthesizeSchema_parse b = Inr p"
      "listVoicesCached e c = (Inr vs, c', calls)"
      "find (\<lambda>v. name v = voiceName p) vs = Some v"
proof (cases "SynthesizeSchema_parse b")
  case (Inl err)
  then show ?thesis using invalid synthesize_try_invalid by blast
next
  case (Inr p)
  obtain r c' calls where l: "listVoicesCached e c = (r, c', calls)"
    using prod_cases3 by blast
  show ?thesis
  proof (cases r)
    case (Inl m)
    with Inr l show ?thesis using listing_failed synthesize_try_listing_failed by blast
  next
    case vs: (Inr vs)
    show ?thesis
    proof (cases "find (\<lambda>v. name v = voiceName p) vs")
      case None
      with Inr l vs show ?thesis using not_found synthesize_try_not_found by blast
    next
      case (Some v)
      with Inr l vs show ?thesis using found by blast
    qed
  qed
qed

lemma synthesis_body_accounting:
  assumes "SynthesizeSchema_parse b = Inr p"
    and "fst (post_api_synthesize e c b) = \<lparr>status = st, body = Synthesis r\<rparr>"
  shows "charCount r = length (text_str p)
     \<and> estimatedCostUsd (billingEstimate r) = estimateCostUsd (voiceType (res_voice r)) (length (text_str p))"
proof (cases rule: synthesize_try_cases [of b e c])
  case (invalid err)
  from post_api_synthesize_caught [OF invalid(2)] assms(2) show ?thesis by simp
next
  case (listing_failed p' m c' calls)
  from post_api_synthesize_caught [OF listing_failed(3)] assms(2) show ?thesis by simp
next
  case (not_found p' vs c' calls)
  from post_api_synthesize_sent [OF not_found(4)] assms(2) show ?thesis by simp
next
  case (found p' vs c' calls v)
  from found(1) assms(1) have pp: "p' = p" by simp
  show ?thesis
  proof (cases "synthesizeSpeech e (forwarded p' v)")
    case (Inl m)
    from post_api_synthesize_caught [OF synthesize_try_rejected [OF found Inl]] assms(2)
    show ?thesis by simp
  next
    case (Inr content)
    show ?thesis
    proof (cases "content = None \<or> content = Some []")
      case True
      from post_api_synthesize_sent [OF synthesize_try_no_audio [OF found Inr True]] assms(2)
      show ?thesis by simp
    next
      case False
      then obtain bytes where bs: "content = Some bytes" "bytes \<noteq> []" by auto
      from Inr bs have a: "synthesizeSpeech e (forwarded p' v) = Inr (Some bytes)" by simp
      from post_api_synthesize_sent [OF synthesize_try_audio [OF found a bs(2)]] assms(2) pp
      show ?thesis by auto
    qed
  qed
qed

lemma remote_rejection_answered_400:
  assumes "SynthesizeSchema_parse b = Inr p"
    and "listVoicesCached e c = (Inr vs, c', calls)"
    and "find (\<lambda>v. name v = voiceName p) vs = Some v"
    and "synthesizeSpeech e (forwarded p v) = Inl m"
  shows "fst (post_api_synthesize e c b) =
     \<lparr>status = 400, body = Error ''Bad request'' (Some (Message m))\<rparr>"
  using post_api_synthesize_caught [OF synthesize_try_rejected [OF assms]] by simp

section \<open>The samples evaluated\<close>

lemma example_voices_classified:
  "voiceTypeFromName (name standard_a) = voiceType standard_a"
  "voiceTypeFromName (name chirp_achernar) = voiceType chirp_achernar"
  by (simp_all add: standard_a_def chirp_achernar_def voiceTypeFromName_def)

lemma parse_hello_body: "SynthesizeSchema_parse hello_body = Inr hello_parsed"
  by (simp add: SynthesizeSchema_parse_def hello_body_def hello_parsed_def z_inputType_def
      z_string_def z_string_optional_def z_audioEncoding_def z_number_optional_def)

lemma parse_ssml_body: "SynthesizeSchema_parse ssml_body = Inr ssml_parsed"
  by (simp add: SynthesizeSchema_parse_def ssml_body_def ssml_parsed_def z_inputType_def
      z_string_def z_string_optional_def z_audioEncoding_def z_number_optional_def)

lemma parse_stranger_body:
  "SynthesizeSchema_parse stranger_body = Inr (hello_parsed\<lparr>voiceName := ''xx-XX-Standard-Z''\<rparr>)"
  by (simp add: SynthesizeSchema_parse_def stranger_body_def hello_parsed_def z_inputType_def
      z_string_def z_string_optional_def z_audioEncoding_def z_number_optional_def)

lemma fresh_cache_hit:
  "listVoicesCached (answering_env content) fresh_cache =
     (Inr [standard_a, chirp_achernar], fresh_cache, [])"
  "listVoicesCached (unreachable_env 2000) fresh_cache =
     (Inr [standard_a, chirp_achernar], fresh_cache, [])"
  by (simp_all add: listVoicesCached_def answering_env_def unreachable_env_def fresh_cache_def)

lemma find_examples:
  "find (\<lambda>v. name v = voiceName hello_parsed) [standard_a, chirp_achernar] = Some standard_a"
  "find (\<lambda>v. name v = voiceName ssml_parsed) [standard_a, chirp_achernar] = Some chirp_achernar"
  by (simp_all add: hello_parsed_def ssml_parsed_def standard_a_def chirp_achernar_def)

lemma forwarded_hello:
  "voiceType v \<noteq> ''CHIRP_HD'' \<Longrightarrow>
   forwarded hello_parsed v =
     \<lparr>req_input = InputText ''Hello'', req_voice_name = ''en-US-Standard-A'',
      req_voice_languageCode = (case languageCodes v of [] \<Rightarrow> None | x # _ \<Rightarrow> Some x),
      cfg_audioEncoding = MP3, cfg_speakingRate = None, cfg_pitch = None,
      cfg_volumeGainDb = None\<rparr>"
  by (simp add: forwarded_def chirp_hd_limits_other build_request_def hello_parsed_def)

lemma audio_bytes: "synthesizeSpeech (answering_env content) rq = Inr content"
  by (simp add: answering_env_def)


section \<open>Claims\<close>

text \<open>
  C1. A request that passes validation and names a listed voice, sent to a service whose
  synthesis call is rejected: the handler answers what its \<^verbatim>\<open>catch\<close> clause answers for
  every exception, status 400 with the error \<^verbatim>\<open>Bad request\<close> and the text of the rejection
  as details. The request was forwarded, so validation and lookup had passed; the status
  is not 500.
\<close>

theorem remote_rejection_hello_400:
  "post_api_synthesize (unreachable_env 2000) fresh_cache
     (JObj [(''inputType'', JStr ''text''), (''text'', JStr ''Hello''),
            (''voiceName'', JStr ''en-US-Standard-A''), (''audioEncoding'', JStr ''MP3'')])
   = (\<lparr>status = 400, body = Error ''Bad request'' (Some (Message ''14 UNAVAILABLE''))\<rparr>,
      fresh_cache,
      [SynthesizeSpeech
         \<lparr>req_input = InputText ''Hello'', req_voice_name = ''en-US-Standard-A'',
          req_voice_languageCode = Some ''en-US'', cfg_audioEncoding = MP3,
          cfg_speakingRate = None, cfg_pitch = None, cfg_volumeGainDb = None\<rparr>])"
proof -
  have t: "voiceType standard_a \<noteq> ''CHIRP_HD''" by (simp add: standard_a_def)
  have rej: "synthesizeSpeech (unreachable_env 2000) (forwarded hello_parsed standard_a)
      = Inl ''14 UNAVAILABLE''"
    by (simp add: unreachable_env_def)
  from post_api_synthesize_caught
    [OF synthesize_try_rejected [OF parse_hello_body fresh_cache_hit(2) find_examples(1) rej]]
  show ?thesis
    by (simp add: forwarded_hello [OF t] hello_body_def [symmetric]) (simp add: standard_a_def)
qed

text \<open>
  C2. A valid request in markup mode for a voice of tier CHIRP_HD: the handler forwards one
  synthesis request, which carries the input as plain text and has neither a speaking
  rate nor a pitch; when the service answers that request with audio, the response is
  the success response (status 200), its input type is text, and its warnings are one for
  the markup, then one for the speaking rate if the request had one, then one for the
  pitch if the request had one.
\<close>

theorem chirp_hd_markup_downgraded:
  assumes "SynthesizeSchema_parse b = Inr p"
    and "inputType p = Ssml"
    and "listVoicesCached e c = (Inr vs, c', calls)"
    and "find (\<lambda>v. name v = voiceName p) vs = Some v"
    and "voiceType v = ''CHIRP_HD''"
  shows "\<exists>rq. snd (snd (post_api_synthesize e c b)) = calls @ [SynthesizeSpeech rq]
      \<and> req_input rq = InputText (text_str p)
      \<and> cfg_speakingRate rq = None \<and> cfg_pitch rq = None
      \<and> (\<forall>bytes. synthesizeSpeech e rq = Inr (Some bytes) \<longrightarrow> bytes \<noteq> [] \<longrightarrow>
            (\<exists>r. fst (post_api_synthesize e c b) = \<lparr>status = 200, body = Synthesis r\<rparr>
               \<and> res_inputType r = Text
               \<and> warnings r =
                   [''Chirp 3: HD voices do not support SSML. Falling back to plain text.'']
                   @ (if speakingRate p \<noteq> None
                      then [''Chirp 3: HD voices do not support speakingRate. Ignoring.''] else [])
                   @ (if pitch p \<noteq> None
                      then [''Chirp 3: HD voices do not support pitch. Ignoring.''] else [])))"
proof -
  let ?rq = "forwarded p v"
  have lim: "chirp_hd_limits (voiceType v) p =
     (Text, None, None,
      [''Chirp 3: HD voices do not support SSML. Falling back to plain text.'']
      @ (if speakingRate p \<noteq> None
         then [''Chirp 3: HD voices do not support speakingRate. Ignoring.''] else [])
      @ (if pitch p \<noteq> None
         then [''Chirp 3: HD voices do not support pitch. Ignoring.''] else []))"
    using assms(2,5) by (simp only: chirp_hd_limits_ssml)
  have rq: "req_input ?rq = InputText (text_str p)" "cfg_speakingRate ?rq = None"
    "cfg_pitch ?rq = None"
    by (simp_all add: forwarded_def lim build_request_def)
  have calls: "snd (snd (post_api_synthesize e c b)) = calls @ [SynthesizeSpeech ?rq]"
    by (simp only: post_api_synthesize_calls synthesize_try_calls [OF assms(1,3,4)])
  have ok: "\<exists>r. fst (post_api_synthesize e c b) = \<lparr>status = 200, body = Synthesis r\<rparr>
               \<and> res_inputType r = Text
               \<and> warnings r =
                   [''Chirp 3: HD voices do not support SSML. Falling back to plain text.'']
                   @ (if speakingRate p \<noteq> None
                      then [''Chirp 3: HD voices do not support speakingRate. Ignoring.''] else [])
                   @ (if pitch p \<noteq> None
                      then [''Chirp 3: HD voices do not support pitch. Ignoring.''] else [])"
    if "synthesizeSpeech e ?rq = Inr (Some bytes)" "bytes \<noteq> []" for bytes
    using post_api_synthesize_sent [OF synthesize_try_audio [OF assms(1,3,4) that]]
    by (simp add: lim)
  from calls rq ok show ?thesis by blast
qed

theorem chirp_hd_markup_downgraded_witness:
  "SynthesizeSchema_parse ssml_body = Inr ssml_parsed
   \<and> inputType ssml_parsed = Ssml
   \<and> voiceType chirp_achernar = ''CHIRP_HD''
   \<and> (\<exists>rq. snd (snd (post_api_synthesize (answering_env (Some [77, 97, 110])) fresh_cache ssml_body))
             = [SynthesizeSpeech rq]
          \<and> req_input rq = InputText ''<speak>Hi</speak>''
          \<and> cfg_speakingRate rq = None \<and> cfg_pitch rq = None)
   \<and> (\<exists>r. fst (post_api_synthesize (answering_env (Some [77, 97, 110])) fresh_cache ssml_body)
             = \<lparr>status = 200, body = Synthesis r\<rparr>
         \<and> res_inputType r = Text
         \<and> warnings r =
             [''Chirp 3: HD voices do not support SSML. Falling back to plain text.'',
              ''Chirp 3: HD voices do not support speakingRate. Ignoring.'',
              ''Chirp 3: HD voices do not support pitch. Ignoring.''])"
proof -
  let ?e = "answering_env (Some [77, 97, 110])"
  have i: "inputType ssml_parsed = Ssml" by (simp add: ssml_parsed_def)
  have t: "voiceType chirp_achernar = ''CHIRP_HD''" by (simp add: chirp_achernar_def)
  from chirp_hd_markup_downgraded [OF parse_ssml_body i fresh_cache_hit(1) find_examples(2) t]
  obtain rq where rq: "snd (snd (post_api_synthesize ?e fresh_cache ssml_body)) = [] @ [SynthesizeSpeech rq]"
    "req_input rq = InputText (text_str ssml_parsed)"
    "cfg_speakingRate rq = None" "cfg_pitch rq = None"
    and ok: "\<forall>bytes. synthesizeSpeech ?e rq = Inr (Some bytes) \<longrightarrow> bytes \<noteq> [] \<longrightarrow>
      (\<exists>r. fst (post_api_synthesize ?e fresh_cache ssml_body) = \<lparr>status = 200, body = Synthesis r\<rparr>
         \<and> res_inputType r = Text
         \<and> warnings r =
             [''Chirp 3: HD voices do not support SSML. Falling back to plain text.'']
             @ (if speakingRate ssml_parsed \<noteq> None
                then [''Chirp 3: HD voices do not support speakingRate. Ignoring.''] else [])
             @ (if pitch ssml_parsed \<noteq> None
                then [''Chirp 3: HD voices do not support pitch. Ignoring.''] else []))"
    by blast
  have a: "synthesizeSpeech ?e rq = Inr (Some [77, 97, 110])" by (rule audio_bytes)
  have n: "[77, 97, 110] \<noteq> ([] :: 8 word list)" by simp
  from ok a n have r: "\<exists>r. fst (post_api_synthesize ?e fresh_cache ssml_body) = \<lparr>status = 200, body = Synthesis r\<rparr>
         \<and> res_inputType r = Text
         \<and> warnings r =
             [''Chirp 3: HD voices do not support SSML. Falling back to plain text.'']
             @ (if speakingRate ssml_parsed \<noteq> None
                then [''Chirp 3: HD voices do not support speakingRate. Ignoring.''] else [])
             @ (if pitch ssml_parsed \<noteq> None
                then [''Chirp 3: HD voices do not support pitch. Ignoring.''] else [])"
    by blast
  have r': "\<exists>r. fst (post_api_synthesize ?e fresh_cache ssml_body) = \<lparr>status = 200, body = Synthesis r\<rparr>
         \<and> res_inputType r = Text
         \<and> warnings r =
             [''Chirp 3: HD voices do not support SSML. Falling back to plain text.'',
              ''Chirp 3: HD voices do not support speakingRate. Ignoring.'',
              ''Chirp 3: HD voices do not support pitch. Ignoring.'']"
    using r by (simp add: ssml_parsed_def)
  have q: "\<exists>rq. snd (snd (post_api_synthesize ?e fresh_cache ssml_body)) = [SynthesizeSpeech rq]
          \<and> req_input rq = InputText ''<speak>Hi</speak>''
          \<and> cfg_speakingRate rq = None \<and> cfg_pitch rq = None"
    using rq by (simp add: ssml_parsed_def)
  from parse_ssml_body i t q r' show ?thesis by (intro conjI)
qed

text \<open>
  C3. A cache that holds a non-empty voice list fetched at time \<open>atMs\<close>, read at a time
  \<open>now\<close> with \<open>now - atMs\<close> below the lifetime: the cached list is returned, the cache
  is unchanged and no remote call is made.
\<close>

theorem listVoicesCached_fresh_hit:
  "voices c \<noteq> [] \<Longrightarrow> now e - atMs c < VOICES_CACHE_TTL_SEC e * 1000
   \<Longrightarrow> listVoicesCached e c = (Inr (voices c), c, [])"
  by (simp add: listVoicesCached_def)

theorem listVoicesCached_fresh_hit_witness:
  "voices \<lparr>atMs = 1000, voices = [standard_a]\<rparr> \<noteq> []
   \<and> now (unreachable_env 3600999) - atMs \<lparr>atMs = 1000, voices = [standard_a]\<rparr>
       < VOICES_CACHE_TTL_SEC (unreachable_env 3600999) * 1000
   \<and> listVoicesCached (unreachable_env 3600999) \<lparr>atMs = 1000, voices = [standard_a]\<rparr>
       = (Inr [standard_a], \<lparr>atMs = 1000, voices = [standard_a]\<rparr>, [])"
proof -
  have a: "voices \<lparr>atMs = 1000, voices = [standard_a]\<rparr> \<noteq> []" by simp
  have b: "now (unreachable_env 3600999) - atMs \<lparr>atMs = 1000, voices = [standard_a]\<rparr>
       < VOICES_CACHE_TTL_SEC (unreachable_env 3600999) * 1000"
    by (simp add: unreachable_env_def)
  from listVoicesCached_fresh_hit [OF a b] a b show ?thesis by simp
qed

text \<open>
  Without the condition on the list the statement fails: a fetch at time 1000 that
  answered an empty directory leaves the cache at \<open>atMs = 1000\<close> with no voices, and the
  next call, one millisecond later and well inside the lifetime of 3600 seconds, calls
  the service again.
\<close>

theorem listVoicesCached_empty_refetched:
  "fst (snd (listVoicesCached (empty_directory_env 1000) initial_cache)) = \<lparr>atMs = 1000, voices = []\<rparr>
   \<and> now (empty_directory_env 1001) - 1000 < VOICES_CACHE_TTL_SEC (empty_directory_env 1001) * 1000
   \<and> snd (snd (listVoicesCached (empty_directory_env 1001) \<lparr>atMs = 1000, voices = []\<rparr>)) = [ListVoices]"
  by (simp add: listVoicesCached_def empty_directory_env_def initial_cache_def)

text \<open>
  C4. When the cache is not valid (expired, or without voices) and the remote listing is
  rejected, \<open>listVoicesCached\<close> fails with the rejection, returns no voice list, stale
  or other, and leaves the cache as it was; \<^verbatim>\<open>GET /api/voices\<close> answers status 500.
\<close>

theorem listVoicesCached_fetch_failure:
  "\<not> (voices c \<noteq> [] \<and> now e - atMs c < VOICES_CACHE_TTL_SEC e * 1000)
   \<Longrightarrow> listVoices e = Inl m
   \<Longrightarrow> listVoicesCached e c = (Inl m, c, [ListVoices])
       \<and> get_api_voices e c =
           (\<lparr>status = 500, body = Error ''Failed to list voices'' (Some (Message m))\<rparr>,
            c, [ListVoices])"
  by (simp add: listVoicesCached_def get_api_voices_def)

theorem listVoicesCached_fetch_failure_witness:
  "listVoices (unreachable_env 3601000) = Inl ''14 UNAVAILABLE''
   \<and> \<not> (now (unreachable_env 3601000) - atMs \<lparr>atMs = 1000, voices = [standard_a]\<rparr>
          < VOICES_CACHE_TTL_SEC (unreachable_env 3601000) * 1000)
   \<and> listVoicesCached (unreachable_env 3601000) \<lparr>atMs = 1000, voices = [standard_a]\<rparr>
       = (Inl ''14 UNAVAILABLE'', \<lparr>atMs = 1000, voices = [standard_a]\<rparr>, [ListVoices])
   \<and> status (fst (get_api_voices (unreachable_env 3601000) \<lparr>atMs = 1000, voices = [standard_a]\<rparr>)) = 500"
proof -
  have a: "listVoices (unreachable_env 3601000) = Inl ''14 UNAVAILABLE''"
    by (simp add: unreachable_env_def)
  have b: "\<not> (now (unreachable_env 3601000) - atMs \<lparr>atMs = 1000, voices = [standard_a]\<rparr>
          < VOICES_CACHE_TTL_SEC (unreachable_env 3601000) * 1000)"
    by (simp add: unreachable_env_def)
  then have b': "\<not> (voices \<lparr>atMs = 1000, voices = [standard_a]\<rparr> \<noteq> []
      \<and> now (unreachable_env 3601000) - atMs \<lparr>atMs = 1000, voices = [standard_a]\<rparr>
          < VOICES_CACHE_TTL_SEC (unreachable_env 3601000) * 1000)"
    by simp
  from listVoicesCached_fetch_failure [OF b' a] a b show ?thesis by simp
qed

text \<open>
  C5. Tier classification tests the Studio pattern, then Neural2, then Wavenet, then
  Standard, then Chirp, then Polyglot, and returns the tier of the first row that
  matches: the source's chain of tests equals the first-match search through the ordered
  table. Every identifier containing \<open>-Studio-\<close> is STUDIO, and an identifier in which
  no pattern of the table occurs is OTHER.
\<close>

theorem voiceTypeFromName_first_match:
  "voiceTypeFromName n = first_matching_tier n
   \<and> map snd tier_patterns =
       [''STUDIO'', ''NEURAL2'', ''WAVENET'', ''STANDARD'', ''CHIRP_HD'', ''POLYGLOT'']
   \<and> ((\<exists>a b. n = a @ ''-Studio-'' @ b) \<longrightarrow> voiceTypeFromName n = ''STUDIO'')
   \<and> ((\<forall>row \<in> set tier_patterns. \<forall>p \<in> set (fst row). \<not> str_includes n p)
        \<longrightarrow> voiceTypeFromName n = ''OTHER'')"
proof (intro conjI impI)
  show "voiceTypeFromName n = first_matching_tier n"
    by (simp add: voiceTypeFromName_def first_matching_tier_def tier_patterns_def
        row_matches_def)
  show "map snd tier_patterns =
      [''STUDIO'', ''NEURAL2'', ''WAVENET'', ''STANDARD'', ''CHIRP_HD'', ''POLYGLOT'']"
    by (simp add: tier_patterns_def)
next
  assume "\<exists>a b. n = a @ ''-Studio-'' @ b"
  then have "str_includes n ''-Studio-''" by (simp only: str_includes_iff)
  then show "voiceTypeFromName n = ''STUDIO''" by (simp add: voiceTypeFromName_def)
next
  assume "\<forall>row \<in> set tier_patterns. \<forall>p \<in> set (fst row). \<not> str_includes n p"
  then show "voiceTypeFromName n = ''OTHER''"
    by (simp add: voiceTypeFromName_def tier_patterns_def)
qed

theorem voiceTypeFromName_first_match_witness:
  "voiceTypeFromName ''en-US-Studio-O'' = ''STUDIO''
   \<and> voiceTypeFromName ''en-US-Studio-Neural2-X'' = ''STUDIO''
   \<and> voiceTypeFromName ''en-US-Casual-K'' = ''OTHER''
   \<and> list_all (\<lambda>row. list_all (\<lambda>p. \<not> str_includes ''en-US-Casual-K'' p) (fst row))
         tier_patterns"
proof -
  have s1: "\<exists>a b. ''en-US-Studio-O'' = a @ ''-Studio-'' @ b"
  proof (intro exI)
    show "''en-US-Studio-O'' = ''en-US'' @ ''-Studio-'' @ ''O''" by simp
  qed
  have s2: "\<exists>a b. ''en-US-Studio-Neural2-X'' = a @ ''-Studio-'' @ b"
  proof (intro exI)
    show "''en-US-Studio-Neural2-X'' = ''en-US'' @ ''-Studio-'' @ ''Neural2-X''" by simp
  qed
  have none: "\<forall>row \<in> set tier_patterns. \<forall>p \<in> set (fst row). \<not> str_includes ''en-US-Casual-K'' p"
    by (simp add: tier_patterns_def)
  have t1: "voiceTypeFromName ''en-US-Studio-O'' = ''STUDIO''"
    using voiceTypeFromName_first_match [of "''en-US-Studio-O''"] s1 by (elim conjE) (rule mp)
  have t2: "voiceTypeFromName ''en-US-Studio-Neural2-X'' = ''STUDIO''"
    using voiceTypeFromName_first_match [of "''en-US-Studio-Neural2-X''"] s2
    by (elim conjE) (rule mp)
  have t3: "voiceTypeFromName ''en-US-Casual-K'' = ''OTHER''"
    using voiceTypeFromName_first_match [of "''en-US-Casual-K''"] none
    by (elim conjE) (rule mp)
  from none have none': "list_all (\<lambda>row. list_all (\<lambda>p. \<not> str_includes ''en-US-Casual-K'' p)
      (fst row)) tier_patterns"
    by (simp only: list_all_iff)
  from t1 t2 t3 none' show ?thesis by (intro conjI)
qed




text \<open>
  C7. When the handler has forwarded a synthesis request and the service answers it
  without audio content, or with audio content of length zero, the response is the
  failure of status 500; and a response that carries a synthesis result never carries
  empty audio.
\<close>

theorem empty_audio_is_failure:
  "(SynthesizeSpeech rq \<in> set (snd (snd (post_api_synthesize e c b))) \<longrightarrow>
      synthesizeSpeech e rq = Inr content \<longrightarrow> content = None \<or> content = Some [] \<longrightarrow>
      fst (post_api_synthesize e c b) =
        \<lparr>status = 500, body = Error ''No audioContent returned by Google TTS.'' None\<rparr>)
   \<and> (fst (post_api_synthesize e c b) = \<lparr>status = st, body = Synthesis r\<rparr> \<longrightarrow>
        base64 (audio r) \<noteq> [])"
proof (intro conjI impI)
  assume sent: "SynthesizeSpeech rq \<in> set (snd (snd (post_api_synthesize e c b)))"
    and answer: "synthesizeSpeech e rq = Inr content"
    and empty: "content = None \<or> content = Some []"
  from sent have sent': "SynthesizeSpeech rq \<in> set (snd (snd (synthesize_try e c b)))"
    by (simp only: post_api_synthesize_calls)
  show "fst (post_api_synthesize e c b) =
        \<lparr>status = 500, body = Error ''No audioContent returned by Google TTS.'' None\<rparr>"
  proof (cases rule: synthesize_try_cases [of b e c])
    case (invalid err)
    with sent' show ?thesis by simp
  next
    case (listing_failed p m c' calls)
    with sent' listVoicesCached_no_synthesis [of rq e c] show ?thesis by simp
  next
    case (not_found p vs c' calls)
    with sent' listVoicesCached_no_synthesis [of rq e c] show ?thesis by simp
  next
    case (found p vs c' calls v)
    from sent' listVoicesCached_no_synthesis [of rq e c] found(2)
    have "rq = forwarded p v"
      by (simp add: synthesize_try_calls [OF found])
    with answer have "synthesizeSpeech e (forwarded p v) = Inr content" by simp
    from post_api_synthesize_sent [OF synthesize_try_no_audio [OF found this empty]]
    show ?thesis by simp
  qed
next
  assume ok: "fst (post_api_synthesize e c b) = \<lparr>status = st, body = Synthesis r\<rparr>"
  show "base64 (audio r) \<noteq> []"
  proof (cases rule: synthesize_try_cases [of b e c])
    case (invalid err)
    from post_api_synthesize_caught [OF invalid(2)] ok show ?thesis by simp
  next
    case (listing_failed p m c' calls)
    from post_api_synthesize_caught [OF listing_failed(3)] ok show ?thesis by simp
  next
    case (not_found p vs c' calls)
    from post_api_synthesize_sent [OF not_found(4)] ok show ?thesis by simp
  next
    case (found p vs c' calls v)
    show ?thesis
    proof (cases "synthesizeSpeech e (forwarded p v)")
      case (Inl m)
      from post_api_synthesize_caught [OF synthesize_try_rejected [OF found Inl]] ok
      show ?thesis by simp
    next
      case (Inr content)
      show ?thesis
      proof (cases "content = None \<or> content = Some []")
        case True
        from post_api_synthesize_sent [OF synthesize_try_no_audio [OF found Inr True]] ok
        show ?thesis by simp
      next
        case False
        then obtain bytes where b: "content = Some bytes" "bytes \<noteq> []" by auto
        from Inr b have a: "synthesizeSpeech e (forwarded p v) = Inr (Some bytes)" by simp
        from post_api_synthesize_sent [OF synthesize_try_audio [OF found a b(2)]] ok b(2)
        show ?thesis by (auto simp: toString_base64_empty_iff)
      qed
    qed
  qed
qed

theorem empty_audio_is_failure_witness:
  "fst (post_api_synthesize (answering_env (Some [])) fresh_cache hello_body) =
      \<lparr>status = 500, body = Error ''No audioContent returned by Google TTS.'' None\<rparr>
   \<and> fst (post_api_synthesize (answering_env None) fresh_cache hello_body) =
      \<lparr>status = 500, body = Error ''No audioContent returned by Google TTS.'' None\<rparr>
   \<and> (\<exists>r. fst (post_api_synthesize (answering_env (Some [77, 97, 110])) fresh_cache hello_body)
            = \<lparr>status = 200, body = Synthesis r\<rparr>
        \<and> base64 (audio r) \<noteq> [])"
proof -
  let ?rq = "forwarded hello_parsed standard_a"
  have sent: "SynthesizeSpeech ?rq
      \<in> set (snd (snd (post_api_synthesize (answering_env content) fresh_cache hello_body)))"
    for content
    by (simp add: post_api_synthesize_calls
        synthesize_try_calls [OF parse_hello_body fresh_cache_hit(1) find_examples(1)])
  have e1: "fst (post_api_synthesize (answering_env (Some [])) fresh_cache hello_body) =
      \<lparr>status = 500, body = Error ''No audioContent returned by Google TTS.'' None\<rparr>"
    using empty_audio_is_failure
      [where rq = ?rq and e = "answering_env (Some [])" and c = fresh_cache and b = hello_body
        and content = "Some []"]
      sent [of "Some []"] audio_bytes [of "Some []" ?rq]
    by blast
  have e2: "fst (post_api_synthesize (answering_env None) fresh_cache hello_body) =
      \<lparr>status = 500, body = Error ''No audioContent returned by Google TTS.'' None\<rparr>"
    using empty_audio_is_failure
      [where rq = ?rq and e = "answering_env None" and c = fresh_cache and b = hello_body
        and content = None]
      sent [of None] audio_bytes [of None ?rq]
    by blast
  have n: "[77, 97, 110] \<noteq> ([] :: 8 word list)" by simp
  from post_api_synthesize_sent
    [OF synthesize_try_audio [OF parse_hello_body fresh_cache_hit(1) find_examples(1)
        audio_bytes n]]
  obtain r where r: "fst (post_api_synthesize (answering_env (Some [77, 97, 110])) fresh_cache hello_body)
      = \<lparr>status = 200, body = Synthesis r\<rparr>"
    by simp
  from empty_audio_is_failure
    [where e = "answering_env (Some [77, 97, 110])" and c = fresh_cache and b = hello_body
      and st = 200 and r = r] r
  have "base64 (audio r) \<noteq> []" by blast
  with r e1 e2 show ?thesis by blast
qed

text \<open>
  C8. A valid request whose voice name is not the name of any voice of the directory that
  \<open>listVoicesCached\<close> returns is answered with status 400, and no synthesis request is
  sent to the service.
\<close>

theorem unknown_voice_rejected:
  assumes "SynthesizeSchema_parse b = Inr p"
    and "fst (listVoicesCached e c) = Inr vs"
    and "voiceName p \<notin> name ` set vs"
  shows "fst (post_api_synthesize e c b) =
           \<lparr>status = 400,
            body = Error ''Unknown voiceName. Fetch /api/voices and pick one from the list.'' None\<rparr>
       \<and> (\<forall>rq. SynthesizeSpeech rq \<notin> set (snd (snd (post_api_synthesize e c b))))"
proof -
  obtain c' calls where l: "listVoicesCached e c = (Inr vs, c', calls)"
    using assms(2) by (cases "listVoicesCached e c") auto
  have calls: "calls = snd (snd (listVoicesCached e c))" by (simp add: l)
  have none: "find (\<lambda>v. name v = voiceName p) vs = None"
    using assms(3) by (force simp: find_None_iff)
  have r: "post_api_synthesize e c b =
     (\<lparr>status = 400,
       body = Error ''Unknown voiceName. Fetch /api/voices and pick one from the list.'' None\<rparr>,
      c', calls)"
    by (rule post_api_synthesize_sent [OF synthesize_try_not_found [OF assms(1) l none]])
  show ?thesis
    by (simp add: r calls listVoicesCached_no_synthesis)
qed

theorem unknown_voice_rejected_witness:
  "SynthesizeSchema_parse stranger_body = Inr (hello_parsed\<lparr>voiceName := ''xx-XX-Standard-Z''\<rparr>)
   \<and> ''xx-XX-Standard-Z'' \<notin> name ` set [standard_a, chirp_achernar]
   \<and> fst (post_api_synthesize (answering_env (Some [77, 97, 110])) fresh_cache stranger_body) =
       \<lparr>status = 400,
        body = Error ''Unknown voiceName. Fetch /api/voices and pick one from the list.'' None\<rparr>
   \<and> SynthesizeSpeech (forwarded hello_parsed standard_a)
       \<notin> set (snd (snd (post_api_synthesize (answering_env (Some [77, 97, 110])) fresh_cache
             stranger_body)))"
proof -
  let ?e = "answering_env (Some [77, 97, 110])"
  let ?p = "hello_parsed\<lparr>voiceName := ''xx-XX-Standard-Z''\<rparr>"
  have l: "fst (listVoicesCached ?e fresh_cache) = Inr [standard_a, chirp_achernar]"
    by (simp add: fresh_cache_hit(1))
  have a: "''xx-XX-Standard-Z'' \<notin> name ` set [standard_a, chirp_achernar]"
    by (simp add: standard_a_def chirp_achernar_def)
  then have a': "voiceName ?p \<notin> name ` set [standard_a, chirp_achernar]" by simp
  from unknown_voice_rejected [OF parse_stranger_body l a'] parse_stranger_body a
  show ?thesis by blast
qed

text \<open>
  C9. The request \<^verbatim>\<open>{inputType: "text", text: "Hello", voiceName: "en-US-Standard-A",
  audioEncoding: "MP3"}\<close> against a directory that lists this voice with tier STANDARD,
  the service answering with audio: the response is a success whose estimated cost is
  \<^verbatim>\<open>(4 / 1_000_000) * 5\<close> in double arithmetic, at the rate 4, and whose MIME type is
  \<^verbatim>\<open>audio/mpeg\<close>. In every success response the character count is the length of the
  raw text of the request, markup included, and the cost is estimated from that length.
\<close>

theorem hello_scenario_cost_and_mime:
  "(listVoicesCached e c = (Inr vs, c', calls) \<longrightarrow>
    find (\<lambda>v. name v = ''en-US-Standard-A'') vs = Some v \<longrightarrow>
    voiceType v = ''STANDARD'' \<longrightarrow>
    synthesizeSpeech e
      \<lparr>req_input = InputText ''Hello'', req_voice_name = ''en-US-Standard-A'',
       req_voice_languageCode = (case languageCodes v of [] \<Rightarrow> None | x # _ \<Rightarrow> Some x),
       cfg_audioEncoding = MP3, cfg_speakingRate = None, cfg_pitch = None,
       cfg_volumeGainDb = None\<rparr> = Inr (Some bytes) \<longrightarrow>
    bytes \<noteq> [] \<longrightarrow>
    (\<exists>r. fst (post_api_synthesize e c
              (JObj [(''inputType'', JStr ''text''), (''text'', JStr ''Hello''),
                     (''voiceName'', JStr ''en-US-Standard-A''),
                     (''audioEncoding'', JStr ''MP3'')]))
            = \<lparr>status = 200, body = Synthesis r\<rparr>
        \<and> estimatedCostUsd (billingEstimate r) = Finite (fmul (fdiv 4 1000000) 5)
        \<and> per1MCharactersUsd (billingEstimate r) = Rate 4
        \<and> mimeType (audio r) = ''audio/mpeg''
        \<and> charCount r = 5))
   \<and> (SynthesizeSchema_parse b = Inr p \<longrightarrow>
        fst (post_api_synthesize e' cc b) = \<lparr>status = st, body = Synthesis r'\<rparr> \<longrightarrow>
        charCount r' = length (text_str p)
        \<and> estimatedCostUsd (billingEstimate r')
            = estimateCostUsd (voiceType (res_voice r')) (length (text_str p)))"
proof (intro conjI impI)
  assume l: "listVoicesCached e c = (Inr vs, c', calls)"
    and f: "find (\<lambda>v. name v = ''en-US-Standard-A'') vs = Some v"
    and t: "voiceType v = ''STANDARD''"
    and a: "synthesizeSpeech e
      \<lparr>req_input = InputText ''Hello'', req_voice_name = ''en-US-Standard-A'',
       req_voice_languageCode = (case languageCodes v of [] \<Rightarrow> None | x # _ \<Rightarrow> Some x),
       cfg_audioEncoding = MP3, cfg_speakingRate = None, cfg_pitch = None,
       cfg_volumeGainDb = None\<rparr> = Inr (Some bytes)"
    and nb: "bytes \<noteq> []"
  from t have nc: "voiceType v \<noteq> ''CHIRP_HD''" by simp
  from f have f': "find (\<lambda>v. name v = voiceName hello_parsed) vs = Some v"
    by (simp add: hello_parsed_def)
  from a have a': "synthesizeSpeech e (forwarded hello_parsed v) = Inr (Some bytes)"
    by (simp only: forwarded_hello [OF nc])
  from post_api_synthesize_sent [OF synthesize_try_audio [OF parse_hello_body l f' a' nb]]
  show "\<exists>r. fst (post_api_synthesize e c
              (JObj [(''inputType'', JStr ''text''), (''text'', JStr ''Hello''),
                     (''voiceName'', JStr ''en-US-Standard-A''),
                     (''audioEncoding'', JStr ''MP3'')]))
            = \<lparr>status = 200, body = Synthesis r\<rparr>
        \<and> estimatedCostUsd (billingEstimate r) = Finite (fmul (fdiv 4 1000000) 5)
        \<and> per1MCharactersUsd (billingEstimate r) = Rate 4
        \<and> mimeType (audio r) = ''audio/mpeg''
        \<and> charCount r = 5"
    by (simp add: hello_body_def [symmetric] t estimateCostUsd_def per1m_of_known)
      (simp add: hello_parsed_def mimeType_of_def)
next
  assume "SynthesizeSchema_parse b = Inr p"
    and "fst (post_api_synthesize e' cc b) = \<lparr>status = st, body = Synthesis r'\<rparr>"
  then have both: "charCount r' = length (text_str p)
     \<and> estimatedCostUsd (billingEstimate r')
         = estimateCostUsd (voiceType (res_voice r')) (length (text_str p))"
    by (rule synthesis_body_accounting)
  from both show "charCount r' = length (text_str p)" by (rule conjunct1)
  from both show "estimatedCostUsd (billingEstimate r')
      = estimateCostUsd (voiceType (res_voice r')) (length (text_str p))" by (rule conjunct2)
qed

theorem hello_scenario_cost_and_mime_witness:
  "(\<exists>r. fst (post_api_synthesize (answering_env (Some [77, 97, 110])) fresh_cache
             (JObj [(''inputType'', JStr ''text''), (''text'', JStr ''Hello''),
                    (''voiceName'', JStr ''en-US-Standard-A''),
                    (''audioEncoding'', JStr ''MP3'')]))
           = \<lparr>status = 200, body = Synthesis r\<rparr>
        \<and> estimatedCostUsd (billingEstimate r) = Finite (fmul (fdiv 4 1000000) 5)
        \<and> mimeType (audio r) = ''audio/mpeg'')
   \<and> (\<exists>r. fst (post_api_synthesize (answering_env (Some [77, 97, 110])) fresh_cache ssml_body)
           = \<lparr>status = 200, body = Synthesis r\<rparr>
        \<and> charCount r = 17
        \<and> estimatedCostUsd (billingEstimate r) = estimateCostUsd ''CHIRP_HD'' 17)"
proof -
  let ?e = "answering_env (Some [77, 97, 110])"
  have n: "[77, 97, 110] \<noteq> ([] :: 8 word list)" by simp
  have f: "find (\<lambda>v. name v = ''en-US-Standard-A'') [standard_a, chirp_achernar] = Some standard_a"
    by (simp add: standard_a_def)
  have t: "voiceType standard_a = ''STANDARD''" by (simp add: standard_a_def)
  have first: "\<exists>r. fst (post_api_synthesize ?e fresh_cache
             (JObj [(''inputType'', JStr ''text''), (''text'', JStr ''Hello''),
                    (''voiceName'', JStr ''en-US-Standard-A''),
                    (''audioEncoding'', JStr ''MP3'')]))
           = \<lparr>status = 200, body = Synthesis r\<rparr>
        \<and> estimatedCostUsd (billingEstimate r) = Finite (fmul (fdiv 4 1000000) 5)
        \<and> mimeType (audio r) = ''audio/mpeg''"
    using hello_scenario_cost_and_mime
      [where e = ?e and c = fresh_cache and vs = "[standard_a, chirp_achernar]"
        and c' = fresh_cache and calls = "[]" and v = standard_a and bytes = "[77, 97, 110]"]
      fresh_cache_hit(1) [of "Some [77, 97, 110]"] f t n audio_bytes [of "Some [77, 97, 110]"]
    by blast
  from post_api_synthesize_sent
    [OF synthesize_try_audio [OF parse_ssml_body fresh_cache_hit(1) find_examples(2)
        audio_bytes n]]
  obtain r where r: "fst (post_api_synthesize ?e fresh_cache ssml_body)
      = \<lparr>status = 200, body = Synthesis r\<rparr>" and v: "res_voice r = chirp_achernar"
    by simp
  from hello_scenario_cost_and_mime
    [where b = ssml_body and p = ssml_parsed and e' = ?e and cc = fresh_cache and st = 200
      and r' = r] parse_ssml_body r
  have "charCount r = length (text_str ssml_parsed)
     \<and> estimatedCostUsd (billingEstimate r)
         = estimateCostUsd (voiceType (res_voice r)) (length (text_str ssml_parsed))"
    by blast
  moreover have "length (text_str ssml_parsed) = 17" by (simp add: ssml_parsed_def)
  moreover have "voiceType chirp_achernar = ''CHIRP_HD''" by (simp add: chirp_achernar_def)
  ultimately have "charCount r = 17
      \<and> estimatedCostUsd (billingEstimate r) = estimateCostUsd ''CHIRP_HD'' 17"
    by (simp only: v)
  with r first show ?thesis by blast
qed

text \<open>
  C10. A cache without voices is never valid: whatever its timestamp, the call fetches
  from the service. The call makes no remote call exactly when the cached list is
  non-empty and younger than the lifetime.
\<close>

theorem listVoicesCached_empty_never_valid:
  "(voices c = [] \<longrightarrow> snd (snd (listVoicesCached e c)) = [ListVoices])
   \<and> (snd (snd (listVoicesCached e c)) = []
        \<longleftrightarrow> voices c \<noteq> [] \<and> now e - atMs c < VOICES_CACHE_TTL_SEC e * 1000)"
  by (simp add: listVoicesCached_def Let_def split: sum.splits)

theorem listVoicesCached_empty_never_valid_witness:
  "voices \<lparr>atMs = 1000, voices = []\<rparr> = []
   \<and> now (empty_directory_env 1001) - atMs \<lparr>atMs = 1000, voices = []\<rparr>
       < VOICES_CACHE_TTL_SEC (empty_directory_env 1001) * 1000
   \<and> snd (snd (listVoicesCached (empty_directory_env 1001) \<lparr>atMs = 1000, voices = []\<rparr>))
       = [ListVoices]"
proof -
  have a: "voices \<lparr>atMs = 1000, voices = []\<rparr> = []" by simp
  have b: "now (empty_directory_env 1001) - atMs \<lparr>atMs = 1000, voices = []\<rparr>
       < VOICES_CACHE_TTL_SEC (empty_directory_env 1001) * 1000"
    by (simp add: empty_directory_env_def)
  from listVoicesCached_empty_never_valid
    [of "\<lparr>atMs = 1000, voices = []\<rparr>" "empty_directory_env 1001"] a b
  show ?thesis by simp
qed

end
